theory Spec2Isabelle
  imports Main "HOL-Library.Sublist" "HOL-Library.AList"
begin

section \<open>Data model of \<open>cmd/guess_deps.go\<close>\<close>

text \<open>
  An \<open>error\<close> value of Go. The only distinction the source makes is the type switch
  on \<open>*build.NoGoError\<close> in \<open>GuessDeps\<close>; every other error is \<open>OtherError\<close>.
\<close>

datatype error = NoGoError string | OtherError string

text \<open>
  The fields of \<open>build.Package\<close> that the source reads. \<open>b.Import\<close> and
  \<open>b.ImportDir\<close> belong to \<open>go/build\<close>; they return a package together with an
  error (\<open>None\<close> is Go's \<open>nil\<close> error), and \<open>go/build\<close> returns a non-nil package
  holding partial information also when the error is set.
\<close>

record Package =
  ImportPath :: string
  Imports :: "string list"
  Goroot :: bool

record BuildCtxt =
  GOPATH :: string
  Import :: "string \<Rightarrow> string \<Rightarrow> Package \<times> error option"
  ImportDir :: "string \<Rightarrow> Package \<times> error option"

text \<open>
  The classification returned by \<open>findPkg\<close>. The source names \<open>ptypeGoroot\<close> and
  \<open>ptypeCgo\<close>; every other classification takes the \<open>default\<close> branch.
\<close>

datatype ptype = ptypeGoroot | ptypeCgo | ptypeOther

record PkgInfo =
  PType :: ptype

text \<open>
  A file tree as \<open>filepath.Walk\<close> sees it: the path of the entry, \<open>fi.IsDir()\<close>, and the
  entries of a directory in the order \<open>Walk\<close> visits them.
\<close>

datatype fsnode = FsNode string bool "fsnode list"

text \<open>
  What the functions of the file take from outside it: the operating system
  (\<open>os.Getwd\<close>, the tree under a directory) and the functions of the package that are
  declared in other files (\<open>GetBuildContext\<close>, \<open>NormalizeName\<close>, \<open>findPkg\<close>,
  \<open>excludeSubtree\<close>). They are parameters of the model. \<open>Getwd\<close> is \<open>Inr\<close> the
  directory or \<open>Inl\<close> the text of the error of the operating system, which is never a
  \<open>*build.NoGoError\<close>.
\<close>

record Env =
  GetBuildContext :: "error + BuildCtxt"
  Getwd :: "string + string"
  NormalizeName :: "string \<Rightarrow> string \<times> string"
  findPkg :: "BuildCtxt \<Rightarrow> string \<Rightarrow> string \<Rightarrow> PkgInfo"
  excludeSubtree :: "string \<Rightarrow> bool \<Rightarrow> bool"
  FileTree :: "string \<Rightarrow> fsnode"

text \<open>\<open>cfg.Config\<close>: the name and the names of the \<open>cfg.Dependency\<close> entries.\<close>

record Config =
  Name :: string
  cfgImports :: "string list"

subsection \<open>Strings and paths\<close>

definition HasPrefix :: "string \<Rightarrow> string \<Rightarrow> bool" where
  "HasPrefix s p = prefix p s"

definition TrimPrefix :: "string \<Rightarrow> string \<Rightarrow> string" where
  "TrimPrefix s p = (if HasPrefix s p then drop (length p) s else s)"

definition Trim :: "string \<Rightarrow> string \<Rightarrow> string" where
  "Trim s cutset =
     rev (dropWhile (\<lambda>c. c \<in> set cutset) (rev (dropWhile (\<lambda>c. c \<in> set cutset) s)))"

definition PathSeparator :: char where
  "PathSeparator = CHR ''/''"

text \<open>\<open>filepath.Base\<close>: the last element of a path, trailing separators removed first.\<close>

definition Base :: "string \<Rightarrow> string" where
  "Base path =
     (if path = [] then ''.''
      else let p = rev (dropWhile (\<lambda>c. c = PathSeparator) (rev path));
               l = rev (takeWhile (\<lambda>c. c \<noteq> PathSeparator) (rev p))
           in if l = [] then [PathSeparator] else l)"

subsection \<open>The map \<open>map[string]bool\<close>\<close>

text \<open>
  A Go map as an association list with distinct keys. \<open>m[k] = true\<close> is \<open>mapSet\<close>,
  reading \<open>m[k]\<close> is \<open>mapGet\<close> (\<open>false\<close> for an absent key), \<open>delete(m, k)\<close> is
  \<open>mapDelete\<close>, and \<open>range m\<close> runs over \<open>mapKeys\<close>. Go fixes no iteration order; the
  theorems about \<open>compactDeps\<close> hold for every list, hence for every order.
\<close>

type_synonym strmap = "(string \<times> bool) list"

definition mapSet :: "string \<Rightarrow> strmap \<Rightarrow> strmap" where
  "mapSet k m = AList.update k True m"

definition mapGet :: "strmap \<Rightarrow> string \<Rightarrow> bool" where
  "mapGet m k = (case map_of m k of None \<Rightarrow> False | Some v \<Rightarrow> v)"

definition mapDelete :: "string \<Rightarrow> strmap \<Rightarrow> strmap" where
  "mapDelete k m = AList.delete k m"

definition mapKeys :: "strmap \<Rightarrow> string list" where
  "mapKeys m = map fst m"

section \<open>The direct walk: \<open>findDeps\<close>\<close>

text \<open>
  The state of a walk: the map \<open>soFar\<close> that the recursion mutates, and a log of what
  the walk did. The log is not in the source; it records each entry into \<open>findDeps\<close>
  with its arguments \<open>name\<close> and \<open>vpath\<close>, each arrival at the loop over
  \<open>pkg.Imports\<close> (with the name that was resolved), and each return of an error.
\<close>

datatype event = Call string string | Descend string | Failed string string

record walk =
  soFar :: strmap
  trace :: "event list"

definition logEv :: "event \<Rightarrow> walk \<Rightarrow> walk" where
  "logEv ev st = st\<lparr>trace := trace st @ [ev]\<rparr>"

definition vendorName :: "string \<Rightarrow> string \<Rightarrow> string" where
  "vendorName vpath imp = vpath @ ''/vendor/'' @ imp"

text \<open>
  The loop \<open>for _, imp := range pkg.Imports\<close> of \<open>findDeps\<close>; \<open>rec\<close> is the recursive
  call. \<open>None\<close> means that the recursion did not return within the depth allowed.
\<close>

fun findImps ::
  "(walk \<Rightarrow> string \<Rightarrow> string \<Rightarrow> (walk \<times> error option) option) \<Rightarrow>
   walk \<Rightarrow> string list \<Rightarrow> string \<Rightarrow> (walk \<times> error option) option" where
  "findImps rec st [] vpath = Some (st, None)"
| "findImps rec st (imp # imps) vpath =
     (if \<not> mapGet (soFar st) imp then
        (case rec st (vendorName vpath imp) vpath of
           None \<Rightarrow> None
         | Some (st1, None) \<Rightarrow> findImps rec st1 imps vpath
         | Some (st1, Some err1) \<Rightarrow>
             (case rec st1 imp vpath of
                None \<Rightarrow> None
              | Some (st2, None) \<Rightarrow> findImps rec st2 imps vpath
              | Some (st2, Some err2) \<Rightarrow> Some (st2, Some err2)))
      else findImps rec st imps vpath)"

text \<open>
  The registration of a resolved package in \<open>soFar\<close>: the name without the vendor
  prefix is stored unless its top-level identity is \<open>vpath\<close>.
\<close>

definition register :: "Env \<Rightarrow> string \<Rightarrow> Package \<Rightarrow> walk \<Rightarrow> walk" where
  "register e vpath pkg st =
     (let realName = TrimPrefix (ImportPath pkg) (vpath @ ''/vendor/'');
          lookupName = fst (NormalizeName e realName)
      in if vpath \<noteq> lookupName then st\<lparr>soFar := mapSet realName (soFar st)\<rparr> else st)"

text \<open>The body of \<open>findDeps\<close>; \<open>rec\<close> is the recursive call.\<close>

definition findDeps_body ::
  "(walk \<Rightarrow> string \<Rightarrow> string \<Rightarrow> (walk \<times> error option) option) \<Rightarrow>
   Env \<Rightarrow> BuildCtxt \<Rightarrow> walk \<Rightarrow> string \<Rightarrow> string \<Rightarrow> (walk \<times> error option) option" where
  "findDeps_body rec e b st name vpath =
     (case Getwd e of
        Inl msg \<Rightarrow> Some (st, Some (OtherError msg))
      | Inr cwd \<Rightarrow>
          if name = ''C'' then Some (st, None)
          else
            (case Import b name cwd of
               (pkg, Some err) \<Rightarrow> Some (st, Some err)
             | (pkg, None) \<Rightarrow>
                 if Goroot pkg then Some (st, None)
                 else
                   let vpath' = (if vpath = [] then ImportPath pkg else vpath)
                   in findImps rec (logEv (Descend name) (register e vpath' pkg st))
                        (Imports pkg) vpath'))"

definition logFail ::
  "string \<Rightarrow> string \<Rightarrow> (walk \<times> error option) option \<Rightarrow> (walk \<times> error option) option" where
  "logFail name vpath r =
     (case r of
        None \<Rightarrow> None
      | Some (st, None) \<Rightarrow> Some (st, None)
      | Some (st, Some err) \<Rightarrow> Some (logEv (Failed name vpath) st, Some err))"

text \<open>
  \<open>findDeps\<close> with a bound on the depth of the recursion: the first argument is the
  number of nested calls allowed, and \<open>None\<close> is returned when it is used up. Go has no
  such bound; a walk that returns in Go returns the same value here once the bound is
  large enough, and a walk that recurses forever in Go is \<open>None\<close> for every bound.
\<close>

primrec findDeps ::
  "nat \<Rightarrow> Env \<Rightarrow> BuildCtxt \<Rightarrow> walk \<Rightarrow> string \<Rightarrow> string \<Rightarrow> (walk \<times> error option) option" where
  "findDeps 0 e b st name vpath = None"
| "findDeps (Suc n) e b st name vpath =
     logFail name vpath
       (findDeps_body (findDeps n e b) e b (logEv (Call name vpath) st) name vpath)"

section \<open>\<open>compactDeps\<close> and \<open>guessPackageName\<close>\<close>

definition compactDeps :: "Env \<Rightarrow> strmap \<Rightarrow> strmap" where
  "compactDeps e m =
     fold (\<lambda>k basePackages. mapSet (fst (NormalizeName e k)) basePackages) (mapKeys m) []"

definition guessPackageName :: "Env \<Rightarrow> BuildCtxt \<Rightarrow> string \<Rightarrow> string" where
  "guessPackageName e b base =
     (case Getwd e of
        Inl msg \<Rightarrow> ''main''
      | Inr cwd \<Rightarrow>
          (case Import b base cwd of
             (pkg, err) \<Rightarrow>
               if err \<noteq> None \<and> HasPrefix base (GOPATH b)
               then Trim (TrimPrefix base (GOPATH b)) [PathSeparator]
               else ImportPath pkg))"

section \<open>The fallback scan and \<open>GuessDeps\<close>\<close>

text \<open>The loop over \<open>pkg.Imports\<close> inside the callback of \<open>filepath.Walk\<close>.\<close>

fun scanImports ::
  "Env \<Rightarrow> BuildCtxt \<Rightarrow> string \<Rightarrow> string \<Rightarrow> string list \<Rightarrow> strmap \<Rightarrow> strmap" where
  "scanImports e b base name [] deps = deps"
| "scanImports e b base name (imp # imps) deps =
     (if HasPrefix imp name then scanImports e b base name imps deps
      else if imp = name then scanImports e b base name imps deps
      else
        (case PType (findPkg e b imp base) of
           ptypeGoroot \<Rightarrow> scanImports e b base name imps deps
         | ptypeCgo \<Rightarrow> scanImports e b base name imps deps
         | ptypeOther \<Rightarrow> scanImports e b base name imps (mapSet imp deps)))"

text \<open>
  The state of the scan: the map \<open>deps\<close>, and a log (not in the source) of the
  entries that were passed to \<open>ImportDir\<close>, each with its \<open>fi.IsDir()\<close>.
\<close>

record scan =
  deps :: strmap
  resolved :: "(string \<times> bool) list"

text \<open>
  The callback: the new state, and whether it returned \<open>filepath.SkipDir\<close> (it returns
  \<open>nil\<close> otherwise).
\<close>

definition scanDir ::
  "Env \<Rightarrow> BuildCtxt \<Rightarrow> string \<Rightarrow> string \<Rightarrow> string \<Rightarrow> bool \<Rightarrow> scan \<Rightarrow> scan \<times> bool" where
  "scanDir e b base name path isDir sc =
     (if excludeSubtree e path isDir then
        (let top = Base path
         in (sc, isDir \<and> (top = ''vendor'' \<or> top = ''testdata'')))
      else
        (let sc1 = sc\<lparr>resolved := resolved sc @ [(path, isDir)]\<rparr>
         in case ImportDir b path of
              (pkg, Some err) \<Rightarrow> (sc1, False)
            | (pkg, None) \<Rightarrow>
                if Goroot pkg then (sc1, False)
                else (sc1\<lparr>deps := scanImports e b base name (Imports pkg) (deps sc1)\<rparr>,
                      False)))"

text \<open>
  \<open>filepath.Walk\<close> on a readable tree: the callback runs on the entry; a directory for
  which it did not return \<open>SkipDir\<close> has its entries walked in order. The callback above
  returns \<open>SkipDir\<close> for directories only.
\<close>

fun Walk :: "(string \<Rightarrow> bool \<Rightarrow> 'a \<Rightarrow> 'a \<times> bool) \<Rightarrow> fsnode \<Rightarrow> 'a \<Rightarrow> 'a"
  and WalkList :: "(string \<Rightarrow> bool \<Rightarrow> 'a \<Rightarrow> 'a \<times> bool) \<Rightarrow> fsnode list \<Rightarrow> 'a \<Rightarrow> 'a" where
  "Walk fn (FsNode path isDir entries) acc =
     (case fn path isDir acc of
        (acc', skipDir) \<Rightarrow> if skipDir \<or> \<not> isDir then acc' else WalkList fn entries acc')"
| "WalkList fn [] acc = acc"
| "WalkList fn (n # ns) acc = WalkList fn ns (Walk fn n acc)"

text \<open>The type switch \<open>switch err.(type) { case *build.NoGoError: ... }\<close>.\<close>

fun isNoGoError :: "error option \<Rightarrow> bool" where
  "isNoGoError (Some (NoGoError msg)) = True"
| "isNoGoError err = False"

text \<open>The call \<open>filepath.Walk(base, ...)\<close> of \<open>GuessDeps\<close>, started on the map \<open>m\<close>.\<close>

definition fallback :: "Env \<Rightarrow> BuildCtxt \<Rightarrow> string \<Rightarrow> string \<Rightarrow> strmap \<Rightarrow> scan" where
  "fallback e b base name m =
     Walk (scanDir e b base name) (FileTree e base) \<lparr>deps = m, resolved = []\<rparr>"

text \<open>
  The discovery set of \<open>GuessDeps\<close>: \<open>deps\<close> as it stands before \<open>compactDeps\<close>, after the
  direct walk and, when that returned a \<open>*build.NoGoError\<close>, the scan of the tree.
\<close>

definition discover :: "nat \<Rightarrow> Env \<Rightarrow> BuildCtxt \<Rightarrow> string \<Rightarrow> strmap option" where
  "discover fuel e b base =
     (case findDeps fuel e b \<lparr>soFar = [], trace = []\<rparr> base [] of
        None \<Rightarrow> None
      | Some (st, err) \<Rightarrow>
          let name = guessPackageName e b base
          in Some (if isNoGoError err then deps (fallback e b base name (soFar st))
                   else soFar st))"

text \<open>
  \<open>GuessDeps\<close>: \<open>dirname\<close> is the parameter of that name (\<open>None\<close> when it is not given, the
  default being \<open>"."\<close>); the result is \<open>Inl\<close> for a returned interrupt and \<open>Inr\<close> for the
  configuration, in the order in which the model ranges over the map.
\<close>

definition baseOf :: "string option \<Rightarrow> string" where
  "baseOf dirname = (case dirname of None \<Rightarrow> ''.'' | Some d \<Rightarrow> d)"

definition GuessDeps :: "nat \<Rightarrow> Env \<Rightarrow> string option \<Rightarrow> (error + Config) option" where
  "GuessDeps fuel e dirname =
     (case GetBuildContext e of
        Inl err \<Rightarrow> Some (Inl err)
      | Inr buildContext \<Rightarrow>
          let base = baseOf dirname
          in (case discover fuel e buildContext base of
                None \<Rightarrow> None
              | Some found \<Rightarrow>
                  let name = guessPackageName e buildContext base;
                      deps' = mapDelete base (compactDeps e found)
                  in Some (Inr \<lparr>Name = name, cfgImports = mapKeys deps'\<rparr>)))"


section \<open>Notions used by the properties\<close>

text \<open>
  \<open>registers e b v k\<close>: the direct walk with vendor parent \<open>v\<close> can put the key \<open>k\<close>
  into \<open>soFar\<close>, that is, \<open>k\<close> is the import path, without the prefix \<open>v/vendor/\<close>, of
  a package that resolved without error from a name other than \<open>C\<close>, is not flagged
  \<open>Goroot\<close>, and whose top-level identity is not \<open>v\<close>.
\<close>

definition registers :: "Env \<Rightarrow> BuildCtxt \<Rightarrow> string \<Rightarrow> string \<Rightarrow> bool" where
  "registers e b v k =
     (\<exists>name cwd pkg. Getwd e = Inr cwd \<and> name \<noteq> ''C'' \<and> Import b name cwd = (pkg, None)
        \<and> \<not> Goroot pkg \<and> k = TrimPrefix (ImportPath pkg) (v @ ''/vendor/'')
        \<and> fst (NormalizeName e k) \<noteq> v)"

text \<open>
  The keys that a call of \<open>findDeps\<close> with the argument \<open>vpath\<close> can add: the vendor
  parent is \<open>vpath\<close> itself unless \<open>vpath\<close> is empty.
\<close>

definition walkKeys :: "Env \<Rightarrow> BuildCtxt \<Rightarrow> string \<Rightarrow> string set" where
  "walkKeys e b vpath = {k. \<exists>v. (vpath \<noteq> [] \<and> v = vpath \<or> vpath = []) \<and> registers e b v k}"

text \<open>The keys that the scan of the tree can add for the project name \<open>name\<close>.\<close>

definition scanKeys :: "Env \<Rightarrow> BuildCtxt \<Rightarrow> string \<Rightarrow> string \<Rightarrow> string set" where
  "scanKeys e b base name =
     {k. \<not> HasPrefix k name \<and> PType (findPkg e b k base) \<noteq> ptypeGoroot
         \<and> PType (findPkg e b k base) \<noteq> ptypeCgo}"

text \<open>
  The keys that a run can hold in its discovery set: those that the direct walk can
  register under some vendor parent, and those that the scan can add.
\<close>

definition admissible :: "Env \<Rightarrow> BuildCtxt \<Rightarrow> string \<Rightarrow> string \<Rightarrow> bool" where
  "admissible e b base k =
     ((\<exists>v. registers e b v k) \<or> k \<in> scanKeys e b base (guessPackageName e b base))"







section \<open>Example environments\<close>

text \<open>
  Concrete inputs on which the theorems below are evaluated. A failing \<open>Import\<close>
  returns, as \<open>go/build\<close> does, a package that holds the path it was asked for.
\<close>

definition pkgOf :: "string \<Rightarrow> string list \<Rightarrow> Package \<times> error option" where
  "pkgOf path imps = (\<lparr>ImportPath = path, Imports = imps, Goroot = False\<rparr>, None)"

definition stdPkg :: "string \<Rightarrow> Package \<times> error option" where
  "stdPkg path = (\<lparr>ImportPath = path, Imports = [], Goroot = True\<rparr>, None)"

definition notFound :: "string \<Rightarrow> Package \<times> error option" where
  "notFound path =
     (\<lparr>ImportPath = path, Imports = [], Goroot = False\<rparr>, Some (OtherError ''cannot find package''))"

definition noGo :: "string \<Rightarrow> Package \<times> error option" where
  "noGo path =
     (\<lparr>ImportPath = path, Imports = [], Goroot = False\<rparr>, Some (NoGoError path))"

text \<open>Two normalisers: the first path element, and the first two path elements.\<close>

definition seg1 :: "string \<Rightarrow> string" where
  "seg1 s = takeWhile (\<lambda>c. c \<noteq> CHR ''/'') s"

definition rest1 :: "string \<Rightarrow> string" where
  "rest1 s = drop 1 (dropWhile (\<lambda>c. c \<noteq> CHR ''/'') s)"

definition norm_one :: "string \<Rightarrow> string \<times> string" where
  "norm_one s = (seg1 s, rest1 s)"

definition norm_two :: "string \<Rightarrow> string \<times> string" where
  "norm_two s =
     (if rest1 s = [] then (s, [])
      else (seg1 s @ ''/'' @ seg1 (rest1 s), rest1 (rest1 s)))"

definition classify_std :: "BuildCtxt \<Rightarrow> string \<Rightarrow> string \<Rightarrow> PkgInfo" where
  "classify_std b name cwd =
     \<lparr>PType = (if name = ''fmt'' then ptypeGoroot
               else if name = ''C'' then ptypeCgo else ptypeOther)\<rparr>"

definition exclude_std :: "string \<Rightarrow> bool \<Rightarrow> bool" where
  "exclude_std path isDir =
     (if isDir then Base path = ''vendor'' \<or> Base path = ''testdata'' else True)"

definition mkEnv ::
  "BuildCtxt \<Rightarrow> (string \<Rightarrow> string \<times> string) \<Rightarrow> (string \<Rightarrow> fsnode) \<Rightarrow> Env" where
  "mkEnv b norm tree =
     \<lparr>GetBuildContext = Inr b, Getwd = Inr ''/work'', NormalizeName = norm,
      findPkg = classify_std, excludeSubtree = exclude_std, FileTree = tree\<rparr>"

definition st0 :: walk where
  "st0 = \<lparr>soFar = [], trace = []\<rparr>"

text \<open>
  A project \<open>p\<close> in the current directory, with two packages of its own, one of which
  imports the other, a standard-library import and an import \<open>q/r\<close> from elsewhere.
\<close>

definition importA :: "string \<Rightarrow> string \<Rightarrow> Package \<times> error option" where
  "importA name cwd =
     (if name = ''.'' then pkgOf ''p'' [''fmt'', ''p/a'', ''p/b'', ''q/r'']
      else if name = ''fmt'' then stdPkg ''fmt''
      else if name = ''p/a'' then pkgOf ''p/a'' [''p/b'']
      else if name = ''p/b'' then pkgOf ''p/b'' []
      else if name = ''q/r'' then pkgOf ''q/r'' []
      else notFound name)"

definition ctxA :: BuildCtxt where
  "ctxA = \<lparr>GOPATH = ''/home/go'', Import = importA, ImportDir = noGo\<rparr>"

definition envA :: Env where
  "envA = mkEnv ctxA norm_one (\<lambda>path. FsNode path True [])"

text \<open>The log of the walk of that project, after the entry at the root.\<close>

definition traceA :: "event list" where
  "traceA =
     [Descend ''.'',
      Call ''p/vendor/fmt'' ''p'', Failed ''p/vendor/fmt'' ''p'', Call ''fmt'' ''p'',
      Call ''p/vendor/p/a'' ''p'', Failed ''p/vendor/p/a'' ''p'', Call ''p/a'' ''p'',
      Descend ''p/a'',
      Call ''p/vendor/p/b'' ''p'', Failed ''p/vendor/p/b'' ''p'', Call ''p/b'' ''p'',
      Descend ''p/b'',
      Call ''p/vendor/p/b'' ''p'', Failed ''p/vendor/p/b'' ''p'', Call ''p/b'' ''p'',
      Descend ''p/b'',
      Call ''p/vendor/q/r'' ''p'', Failed ''p/vendor/q/r'' ''p'', Call ''q/r'' ''p'',
      Descend ''q/r'']"

text \<open>A directory that does not resolve: malformed source, outside \<open>GOPATH\<close>.\<close>

definition ctxB :: BuildCtxt where
  "ctxB = \<lparr>GOPATH = ''/home/go'', Import = (\<lambda>name cwd. notFound name), ImportDir = noGo\<rparr>"

definition envB :: Env where
  "envB = mkEnv ctxB norm_one (\<lambda>path. FsNode path True [])"

text \<open>
  A project \<open>p\<close> that imports \<open>C\<close> and keeps a package in the directory
  \<open>vendor/C\<close>.
\<close>

definition importC :: "string \<Rightarrow> string \<Rightarrow> Package \<times> error option" where
  "importC name cwd =
     (if name = ''.'' then pkgOf ''p'' [''C'']
      else if name = ''p/vendor/C'' then pkgOf ''p/vendor/C'' []
      else notFound name)"

definition ctxC :: BuildCtxt where
  "ctxC = \<lparr>GOPATH = ''/home/go'', Import = importC, ImportDir = noGo\<rparr>"

definition envC :: Env where
  "envC = mkEnv ctxC norm_one (\<lambda>path. FsNode path True [])"

text \<open>The normaliser of two path elements, for \<open>example.org/lib\<close>.\<close>

definition envD :: Env where
  "envD = mkEnv ctxB norm_two (\<lambda>path. FsNode path True [])"

definition libDeps :: strmap where
  "libDeps = [(''example.org/lib'', True), (''example.org/lib/sub'', True)]"

text \<open>
  A project \<open>p\<close> whose root resolves and whose import \<open>q\<close> is a directory without Go
  source; the directory \<open>cmd\<close> of the project imports \<open>z/w\<close>.
\<close>

definition importE :: "string \<Rightarrow> string \<Rightarrow> Package \<times> error option" where
  "importE name cwd =
     (if name = ''.'' then pkgOf ''p'' [''q'']
      else if name = ''q'' then noGo ''q''
      else notFound name)"

definition importDirE :: "string \<Rightarrow> Package \<times> error option" where
  "importDirE path = (if path = ''cmd'' then pkgOf ''p/cmd'' [''z/w''] else noGo path)"

definition ctxE :: BuildCtxt where
  "ctxE = \<lparr>GOPATH = ''/home/go'', Import = importE, ImportDir = importDirE\<rparr>"

definition envE :: Env where
  "envE = mkEnv ctxE norm_one (\<lambda>path. FsNode path True [FsNode ''cmd'' True []])"

text \<open>
  A project \<open>foo\<close> without Go source at its root. Its directory \<open>cmd\<close> imports packages
  of the project, of the standard library and of other projects; its directory
  \<open>vendor\<close> holds a package that imports \<open>hidden/dep\<close>.
\<close>

definition importF :: "string \<Rightarrow> string \<Rightarrow> Package \<times> error option" where
  "importF name cwd = (if name = ''.'' then noGo ''foo'' else notFound name)"

definition importDirF :: "string \<Rightarrow> Package \<times> error option" where
  "importDirF path =
     (if path = ''cmd'' then pkgOf ''foo/cmd'' [''foobar/x'', ''foo/util'', ''fmt'', ''C'', ''z/w'']
      else if path = ''vendor/v'' then pkgOf ''v'' [''hidden/dep'']
      else noGo path)"

definition treeF :: fsnode where
  "treeF = FsNode ''.'' True
             [FsNode ''cmd'' True [],
              FsNode ''vendor'' True [FsNode ''vendor/v'' True []]]"

definition ctxF :: BuildCtxt where
  "ctxF = \<lparr>GOPATH = ''/home/go'', Import = importF, ImportDir = importDirF\<rparr>"

definition envF :: Env where
  "envF = mkEnv ctxF norm_one (\<lambda>path. treeF)"

section \<open>Facts about the model\<close>

lemmas example_defs = pkgOf_def stdPkg_def notFound_def noGo_def seg1_def rest1_def norm_one_def
  norm_two_def classify_std_def exclude_std_def mkEnv_def st0_def importA_def ctxA_def envA_def
  traceA_def
  ctxB_def envB_def importC_def ctxC_def envC_def envD_def libDeps_def importE_def importDirE_def
  ctxE_def envE_def importF_def importDirF_def treeF_def ctxF_def envF_def

lemmas model_defs = HasPrefix_def TrimPrefix_def Trim_def PathSeparator_def Base_def mapSet_def
  mapGet_def mapDelete_def mapKeys_def logEv_def vendorName_def register_def findDeps_body_def
  logFail_def
  compactDeps_def guessPackageName_def scanDir_def fallback_def discover_def baseOf_def
  GuessDeps_def

subsection \<open>The map\<close>

lemma mapKeys_Nil: "set (mapKeys []) = {}"
  by (simp add: mapKeys_def)

lemma mapGet_Nil: "mapGet [] k = False"
  by (simp add: mapGet_def)

lemma mapKeys_mapSet: "set (mapKeys (mapSet k m)) = insert k (set (mapKeys m))"
  by (auto simp add: mapKeys_def mapSet_def update_keys)

lemma mapGet_mapSet: "mapGet (mapSet k m) k' = (k' = k \<or> mapGet m k')"
  by (simp add: mapGet_def mapSet_def update_conv')

lemma fold_mapSet_keys:
  "set (mapKeys (fold (\<lambda>k acc. mapSet (f k) acc) ks m)) = f ` set ks \<union> set (mapKeys m)"
  by (induction ks arbitrary: m) (auto simp add: mapKeys_mapSet)

lemma fold_mapSet_get:
  "mapGet (fold (\<lambda>k acc. mapSet (f k) acc) ks m) d = (d \<in> f ` set ks \<or> mapGet m d)"
  by (induction ks arbitrary: m) (auto simp add: mapGet_mapSet)

section \<open>\<open>compactDeps\<close>\<close>

text \<open>
  C4. For every discovery set \<open>S\<close>, the keys of \<open>compactDeps S\<close> are exactly the
  top-level identities \<open>NormalizeName k\<close> of the keys \<open>k\<close> of \<open>S\<close>, each stored with
  the value \<open>true\<close>; in particular two keys with the same top-level identity \<open>r\<close>
  (such as \<open>example.org/lib\<close> and \<open>example.org/lib/sub\<close>) leave the single entry \<open>r\<close>.
\<close>

theorem compactDeps_top_level:
  "set (mapKeys (compactDeps e S)) = (\<lambda>k. fst (NormalizeName e k)) ` set (mapKeys S)
   \<and> (\<forall>d. mapGet (compactDeps e S) d = (d \<in> (\<lambda>k. fst (NormalizeName e k)) ` set (mapKeys S)))
   \<and> (set (mapKeys S) = {a, c} \<and> fst (NormalizeName e a) = r \<and> fst (NormalizeName e c) = r
        \<longrightarrow> set (mapKeys (compactDeps e S)) = {r})"
proof -
  have keys: "set (mapKeys (compactDeps e S)) = (\<lambda>k. fst (NormalizeName e k)) ` set (mapKeys S)"
    by (simp add: compactDeps_def fold_mapSet_keys mapKeys_Nil)
  have get: "mapGet (compactDeps e S) d = (d \<in> (\<lambda>k. fst (NormalizeName e k)) ` set (mapKeys S))" for d
    by (simp add: compactDeps_def fold_mapSet_get mapGet_Nil)
  from keys get show ?thesis by auto
qed

theorem compactDeps_top_level_witness:
  "set (mapKeys libDeps) = {''example.org/lib'', ''example.org/lib/sub''}
   \<and> fst (NormalizeName envD ''example.org/lib'') = ''example.org/lib''
   \<and> fst (NormalizeName envD ''example.org/lib/sub'') = ''example.org/lib''
   \<and> set (mapKeys (compactDeps envD libDeps)) = {''example.org/lib''}"
  using compactDeps_top_level [of envD libDeps "''example.org/lib''" "''example.org/lib/sub''" "''example.org/lib''"]
  by (simp add: example_defs mapKeys_def)

section \<open>\<open>guessPackageName\<close>\<close>

text \<open>
  C7. The comment of \<open>guessPackageName\<close> promises the default \<open>main\<close> when no name can
  be detected. For a root that does not resolve and does not lie under \<open>GOPATH\<close> the
  function returns the import path of the package that came back with the error: for
  the directory \<open>.\<close> it returns \<open>.\<close>, not \<open>main\<close>.
\<close>

theorem guessPackageName_unresolved_root:
  "guessPackageName envB ctxB ''.'' = ''.'' \<and> guessPackageName envB ctxB ''.'' \<noteq> ''main''"
  by (simp add: guessPackageName_def example_defs HasPrefix_def)

section \<open>\<open>GuessDeps\<close>\<close>

text \<open>
  C1. When the direct walk from the root returns an error that is not a
  \<open>*build.NoGoError\<close>, \<open>GuessDeps\<close> does not return it: the type switch has no case for
  it, and the function goes on to build and return the configuration. Here the root
  does not resolve (\<open>cannot find package\<close>), and the result is a configuration with no
  imports and no error.
\<close>

theorem GuessDeps_walk_error_dropped:
  "findDeps 1 envB ctxB st0 ''.'' [] =
     Some (\<lparr>soFar = [], trace = [Call ''.'' [], Failed ''.'' []]\<rparr>,
           Some (OtherError ''cannot find package''))
   \<and> GuessDeps 1 envB None = Some (Inr \<lparr>Name = ''.'', cfgImports = []\<rparr>)"
  by (simp add: model_defs example_defs Let_def)

subsection \<open>The keys that the direct walk registers\<close>

lemma soFar_logEv: "soFar (logEv ev st) = soFar st"
  by (simp add: logEv_def)



lemma findDeps_body_cases:
  assumes "findDeps_body rec e b st name vpath = Some (st', err)"
  obtains
    (getwd) msg where "Getwd e = Inl msg" "st' = st" "err = Some (OtherError msg)"
  | (cgo) cwd where "Getwd e = Inr cwd" "name = ''C''" "st' = st" "err = None"
  | (unresolved) cwd pkg er where "Getwd e = Inr cwd" "name \<noteq> ''C''"
      "Import b name cwd = (pkg, Some er)" "st' = st" "err = Some er"
  | (goroot) cwd pkg where "Getwd e = Inr cwd" "name \<noteq> ''C''"
      "Import b name cwd = (pkg, None)" "Goroot pkg" "st' = st" "err = None"
  | (descend) cwd pkg where "Getwd e = Inr cwd" "name \<noteq> ''C''"
      "Import b name cwd = (pkg, None)" "\<not> Goroot pkg"
      "findImps rec
         (logEv (Descend name) (register e (if vpath = [] then ImportPath pkg else vpath) pkg st))
         (Imports pkg) (if vpath = [] then ImportPath pkg else vpath) = Some (st', err)"
  using assms unfolding findDeps_body_def Let_def
  by (auto split: sum.splits if_splits prod.splits option.splits)

lemma logFail_Some:
  "logFail name vpath r = Some (st', err) \<longleftrightarrow>
     (\<exists>st1. r = Some (st1, err)
        \<and> st' = (if err = None then st1 else logEv (Failed name vpath) st1))"
  by (auto simp add: logFail_def split: option.splits prod.splits)

lemma findDeps_Suc_cases:
  assumes "findDeps (Suc n) e b st name vpath = Some (st', err)"
  obtains st1 where
    "findDeps_body (findDeps n e b) e b (logEv (Call name vpath) st) name vpath = Some (st1, err)"
    "st' = (if err = None then st1 else logEv (Failed name vpath) st1)"
  using assms by (auto simp add: logFail_Some)

lemma findImps_keys:
  assumes rec: "\<And>st nm st' err. rec st nm vpath = Some (st', err)
                  \<Longrightarrow> set (mapKeys (soFar st')) \<subseteq> set (mapKeys (soFar st)) \<union> K"
    and run: "findImps rec st imps vpath = Some (st', err)"
  shows "set (mapKeys (soFar st')) \<subseteq> set (mapKeys (soFar st)) \<union> K"
  using run
proof (induction imps arbitrary: st)
  case Nil
  then show ?case by simp
next
  case (Cons imp imps)
  show ?case
  proof (cases "mapGet (soFar st) imp")
    case True
    with Cons show ?thesis by simp
  next
    case False
    from Cons.prems False obtain st1 e1 where
      r1: "rec st (vendorName vpath imp) vpath = Some (st1, e1)"
      by (auto split: option.splits)
    show ?thesis
    proof (cases e1)
      case None
      with Cons.prems False r1 have "findImps rec st1 imps vpath = Some (st', err)" by simp
      from Cons.IH [OF this] rec [OF r1] show ?thesis by blast
    next
      case (Some er)
      with Cons.prems False r1 obtain st2 e2 where
        r2: "rec st1 imp vpath = Some (st2, e2)"
        by (auto split: option.splits)
      show ?thesis
      proof (cases e2)
        case None
        with Cons.prems False r1 r2 Some have "findImps rec st2 imps vpath = Some (st', err)"
          by simp
        from Cons.IH [OF this] rec [OF r1] rec [OF r2] show ?thesis by blast
      next
        case (Some er2)
        with Cons.prems False r1 r2 \<open>e1 = Some er\<close> have "st' = st2" by simp
        with rec [OF r1] rec [OF r2] show ?thesis by blast
      qed
    qed
  qed
qed

lemma register_keys:
  assumes "Getwd e = Inr cwd" "name \<noteq> ''C''" "Import b name cwd = (pkg, None)" "\<not> Goroot pkg"
  shows "set (mapKeys (soFar (register e v pkg st)))
           \<subseteq> set (mapKeys (soFar st)) \<union> {k. registers e b v k}"
  using assms unfolding register_def Let_def registers_def
  by (auto simp add: mapKeys_mapSet)

lemma walkKeys_mono:
  "walkKeys e b (if vpath = [] then p else vpath) \<subseteq> walkKeys e b vpath"
  by (auto simp add: walkKeys_def)

lemma registers_walkKeys:
  "{k. registers e b (if vpath = [] then p else vpath) k} \<subseteq> walkKeys e b vpath"
  by (auto simp add: walkKeys_def)

lemma findDeps_keys:
  "findDeps n e b st name vpath = Some (st', err)
     \<Longrightarrow> set (mapKeys (soFar st')) \<subseteq> set (mapKeys (soFar st)) \<union> walkKeys e b vpath"
proof (induction n arbitrary: st name vpath st' err)
  case 0
  then show ?case by simp
next
  case (Suc n)
  from Suc.prems obtain st1 where
    body: "findDeps_body (findDeps n e b) e b (logEv (Call name vpath) st) name vpath = Some (st1, err)"
    and st': "st' = (if err = None then st1 else logEv (Failed name vpath) st1)"
    by (rule findDeps_Suc_cases)
  have keys': "soFar st' = soFar st1" using st' by (simp add: soFar_logEv)
  from body show ?case
  proof (cases rule: findDeps_body_cases)
    case (descend cwd pkg)
    let ?v = "if vpath = [] then ImportPath pkg else vpath"
    have "set (mapKeys (soFar st1))
            \<subseteq> set (mapKeys (soFar (logEv (Descend name) (register e ?v pkg (logEv (Call name vpath) st)))))
               \<union> walkKeys e b ?v"
      by (rule findImps_keys [OF _ descend(5)]) (rule Suc.IH)
    moreover have "set (mapKeys (soFar (register e ?v pkg (logEv (Call name vpath) st))))
            \<subseteq> set (mapKeys (soFar st)) \<union> {k. registers e b ?v k}"
      using register_keys [OF descend(1-4), where v = ?v and st = "logEv (Call name vpath) st"]
      by (simp add: soFar_logEv)
    ultimately show ?thesis
      using walkKeys_mono [of e b vpath "ImportPath pkg"]
        registers_walkKeys [of e b vpath "ImportPath pkg"] keys'
      by (auto simp add: soFar_logEv)
  qed (simp_all add: keys' soFar_logEv)
qed

subsection \<open>The keys that the scan of the tree adds\<close>

lemma scanImports_keys:
  "set (mapKeys (scanImports e b base name imps m))
     \<subseteq> set (mapKeys m) \<union> (set imps \<inter> scanKeys e b base name)"
proof (induction imps arbitrary: m)
  case Nil
  then show ?case by simp
next
  case (Cons imp imps)
  show ?case
    using Cons.IH [of m] Cons.IH [of "mapSet imp m"]
    by (cases "PType (findPkg e b imp base)")
       (auto simp add: mapKeys_mapSet scanKeys_def)
qed

lemma scanDir_keys:
  "set (mapKeys (deps (fst (scanDir e b base name path d sc))))
     \<subseteq> set (mapKeys (deps sc)) \<union> scanKeys e b base name"
  using scanImports_keys [of e b base name _ "deps sc"]
  by (auto simp add: scanDir_def Let_def split: prod.splits option.splits)

lemma Walk_invariant:
  "(\<And>path d a. P a \<Longrightarrow> P (fst (fn path d a))) \<Longrightarrow> P acc \<Longrightarrow> P (Walk fn t acc)"
  "(\<And>path d a. P a \<Longrightarrow> P (fst (fn path d a))) \<Longrightarrow> P acc \<Longrightarrow> P (WalkList fn ts acc)"
proof (induction fn t acc and fn ts acc rule: Walk_WalkList.induct)
  case (1 fn path isDir entries acc)
  obtain acc' skipDir where r: "fn path isDir acc = (acc', skipDir)" by (cases "fn path isDir acc")
  from "1.prems"(1) [OF "1.prems"(2), of path isDir] r have p: "P acc'" by simp
  show ?case
  proof (cases "skipDir \<or> \<not> isDir")
    case True
    with r p show ?thesis by simp
  next
    case False
    have "P (WalkList fn entries acc')"
      by (rule "1.IH" [OF r [symmetric] False "1.prems"(1) p])
    with r False show ?thesis by simp
  qed
next
  case (2 fn acc)
  then show ?case by simp
next
  case (3 fn n ns acc)
  then show ?case by simp
qed

lemma fallback_keys:
  "set (mapKeys (deps (fallback e b base name m))) \<subseteq> set (mapKeys m) \<union> scanKeys e b base name"
proof -
  let ?P = "\<lambda>sc. set (mapKeys (deps sc)) \<subseteq> set (mapKeys m) \<union> scanKeys e b base name"
  have "?P (Walk (scanDir e b base name) (FileTree e base) \<lparr>deps = m, resolved = []\<rparr>)"
  proof (rule Walk_invariant(1) [where P = ?P])
    fix path d and acc :: scan
    assume "?P acc"
    with scanDir_keys [of e b base name path d acc]
    show "?P (fst (scanDir e b base name path d acc))" by blast
  qed simp
  then show ?thesis by (simp add: fallback_def)
qed



lemma mapKeys_mapDelete: "set (mapKeys (mapDelete k m)) = set (mapKeys m) - {k}"
  by (simp add: mapKeys_def mapDelete_def delete_keys)

lemma compactDeps_keys:
  "set (mapKeys (compactDeps e S)) = (\<lambda>k. fst (NormalizeName e k)) ` set (mapKeys S)"
  by (simp add: compactDeps_def fold_mapSet_keys mapKeys_Nil)


lemma discover_cases:
  assumes "discover fuel e b base = Some found"
  obtains st err where "findDeps fuel e b \<lparr>soFar = [], trace = []\<rparr> base [] = Some (st, err)"
    "found = (if isNoGoError err then deps (fallback e b base (guessPackageName e b base) (soFar st))
              else soFar st)"
  using assms by (auto simp add: discover_def Let_def split: option.splits prod.splits)


section \<open>The project itself is not a dependency\<close>



section \<open>Standard library and native interop\<close>

text \<open>
  C3. \<open>findDeps\<close> means to skip the cgo pseudo-package, as its comment says, but it
  tests \<open>name == "C"\<close> on the name it is called with, and the loop over the imports
  calls it with \<open>vpath/vendor/C\<close> first. For a project \<open>p\<close> that imports \<open>C\<close> and
  holds a package in \<open>vendor/C\<close>, the lookup of \<open>p/vendor/C\<close> resolves, and the key
  \<open>C\<close> is registered in the discovery set and reaches the final set.
\<close>

theorem native_interop_name_registered:
  "discover 2 envC ctxC ''.'' = Some [(''C'', True)]
   \<and> GuessDeps 2 envC None = Some (Inr \<lparr>Name = ''p'', cfgImports = [''C'']\<rparr>)"
  by (simp add: model_defs example_defs Let_def numeral_2_eq_2)

text \<open>
  What does hold of every run: every key of the discovery set is either the import
  path, without the vendor prefix, of a package that the direct walk resolved without
  error from a name other than \<open>C\<close> and that is not flagged \<open>Goroot\<close>, or an import
  that the scan found and that \<open>findPkg\<close> classifies neither as \<open>ptypeGoroot\<close> nor as
  \<open>ptypeCgo\<close>; every entry of the final set is the top-level identity of such a key.
\<close>

theorem discovery_set_classified:
  assumes ctx: "GetBuildContext e = Inr b"
    and run: "GuessDeps fuel e dirname = Some (Inr cfg)"
  shows "\<exists>found. discover fuel e b (baseOf dirname) = Some found
           \<and> (\<forall>k \<in> set (mapKeys found). admissible e b (baseOf dirname) k)
           \<and> (\<forall>d \<in> set (cfgImports cfg). \<exists>k \<in> set (mapKeys found). d = fst (NormalizeName e k))"
proof -
  from run ctx obtain found where
    disc: "discover fuel e b (baseOf dirname) = Some found"
    and cfg: "cfg = \<lparr>Name = guessPackageName e b (baseOf dirname),
                    cfgImports = mapKeys (mapDelete (baseOf dirname) (compactDeps e found))\<rparr>"
    by (auto simp add: GuessDeps_def Let_def split: sum.splits option.splits)
  have "admissible e b (baseOf dirname) k" if "k \<in> set (mapKeys found)" for k
  proof -
    from disc obtain st err where
      w: "findDeps fuel e b \<lparr>soFar = [], trace = []\<rparr> (baseOf dirname) [] = Some (st, err)"
      and found: "found = (if isNoGoError err
                   then deps (fallback e b (baseOf dirname) (guessPackageName e b (baseOf dirname)) (soFar st))
                   else soFar st)"
      by (rule discover_cases)
    from that found
      fallback_keys [of e b "baseOf dirname" "guessPackageName e b (baseOf dirname)" "soFar st"]
    have "k \<in> scanKeys e b (baseOf dirname) (guessPackageName e b (baseOf dirname))
          \<or> k \<in> set (mapKeys (soFar st))"
      by (auto split: if_splits)
    moreover have "k \<in> set (mapKeys (soFar st)) \<Longrightarrow> \<exists>v. registers e b v k"
      using findDeps_keys [OF w] by (auto simp add: walkKeys_def mapKeys_def)
    ultimately show ?thesis by (auto simp add: admissible_def)
  qed
  moreover have "\<exists>k \<in> set (mapKeys found). d = fst (NormalizeName e k)"
    if "d \<in> set (cfgImports cfg)" for d
    using that cfg by (auto simp add: mapKeys_mapDelete compactDeps_keys)
  ultimately show ?thesis using disc by blast
qed

theorem discovery_set_classified_witness:
  "discover 3 envA ctxA ''.'' = Some [(''q/r'', True)]
   \<and> admissible envA ctxA ''.'' ''q/r''
   \<and> GuessDeps 3 envA None = Some (Inr \<lparr>Name = ''p'', cfgImports = [''q'']\<rparr>)"
proof -
  have ctx: "GetBuildContext envA = Inr ctxA" by (simp add: envA_def mkEnv_def)
  have run: "GuessDeps 3 envA None = Some (Inr \<lparr>Name = ''p'', cfgImports = [''q'']\<rparr>)"
    by (simp add: model_defs example_defs Let_def numeral_3_eq_3)
  have disc: "discover 3 envA ctxA ''.'' = Some [(''q/r'', True)]"
    by (simp add: model_defs example_defs Let_def numeral_3_eq_3)
  from discovery_set_classified [OF ctx run] disc
  have "admissible envA ctxA ''.'' ''q/r''" by (simp add: baseOf_def mapKeys_def)
  with run disc show ?thesis by simp
qed

section \<open>The prefix test of the scan\<close>

text \<open>
  C10. The scan of the tree never adds an import that has the name of the project as a
  plain string prefix, whether or not a path separator follows the prefix: with the
  project name \<open>foo\<close> the import \<open>foobar/x\<close> is skipped too.
\<close>

theorem fallback_skips_name_prefix:
  "HasPrefix imp name \<Longrightarrow> imp \<notin> set (mapKeys m)
     \<Longrightarrow> imp \<notin> set (mapKeys (deps (fallback e b base name m)))"
  using fallback_keys [of e b base name m] by (auto simp add: scanKeys_def)

theorem fallback_skips_name_prefix_witness:
  "guessPackageName envF ctxF ''.'' = ''foo''
   \<and> ''foobar/x'' \<in> set (Imports (fst (ImportDir ctxF ''cmd'')))
   \<and> HasPrefix ''foobar/x'' ''foo''
   \<and> ''foobar/x'' \<notin> set (mapKeys (deps (fallback envF ctxF ''.'' ''foo'' [])))
   \<and> deps (fallback envF ctxF ''.'' ''foo'' []) = [(''z/w'', True)]"
proof -
  have p: "HasPrefix ''foobar/x'' ''foo''" by (simp add: HasPrefix_def)
  have n: "''foobar/x'' \<notin> set (mapKeys [])" by (simp add: mapKeys_def)
  from fallback_skips_name_prefix [OF p n, of envF ctxF "''.''"] p
  show ?thesis by (simp add: model_defs example_defs Let_def)
qed

section \<open>When the scan of the tree runs, and what it skips\<close>

subsection \<open>Where the error of a walk comes from\<close>








subsection \<open>The skip list\<close>






subsection \<open>The tree is read by the scan only\<close>









section \<open>The vendor overlay comes first\<close>

subsection \<open>The log of the walk\<close>







section \<open>Termination of the direct walk\<close>

subsection \<open>The depth of the recursion\<close>














subsection \<open>The calls of an example\<close>






end
